theory Spec2Isabelle
  imports Complex_Main "HOL-Library.Sublist" "HOL-Library.Word"
begin

section \<open>Strings and paths\<close>

text \<open>
  Python strings are modelled as \<open>string\<close>. The helpers below are the library
  functions that \<^verbatim>\<open>main.py\<close> calls on strings and on \<^verbatim>\<open>pathlib.Path\<close> objects
  (POSIX flavour: the service runs with \<^verbatim>\<open>os.name != 'nt'\<close>, so \<^verbatim>\<open>TEMP_DIR\<close> is
  \<^verbatim>\<open>/tmp\<close>).
\<close>

text \<open>\<^verbatim>\<open>s.split(c)\<close>\<close>

fun split_sep :: "char \<Rightarrow> string \<Rightarrow> string list" where
  "split_sep c [] = [[]]"
| "split_sep c (x # xs) =
     (if x = c then [] # split_sep c xs
      else (case split_sep c xs of [] \<Rightarrow> [[x]] | y # ys \<Rightarrow> (x # y) # ys))"

text \<open>\<^verbatim>\<open>sep.join(xs)\<close>\<close>

fun join :: "string \<Rightarrow> string list \<Rightarrow> string" where
  "join sep [] = []"
| "join sep [x] = x"
| "join sep (x # y # ys) = x @ sep @ join sep (y # ys)"

text \<open>
  \<^verbatim>\<open>s.rfind(c)\<close>: the index of the last occurrence of \<open>c\<close>, or \<open>-1\<close>.
\<close>

definition rfind :: "string \<Rightarrow> char \<Rightarrow> int" where
  "rfind s c =
     (if c \<in> set s
      then int (length s) - 1 - int (length (takeWhile (\<lambda>x. x \<noteq> c) (rev s)))
      else - 1)"

text \<open>
  \<^verbatim>\<open>s.lower()\<close> on the ASCII letters. No other code point lowers to a character of
  \<^verbatim>\<open>.mp3\<close> or \<^verbatim>\<open>.wav\<close>, so membership of the lowered suffix in the allowed set is
  decided as in Python.
\<close>

definition lower_char :: "char \<Rightarrow> char" where
  "lower_char c =
     (case map_of (zip ''ABCDEFGHIJKLMNOPQRSTUVWXYZ'' ''abcdefghijklmnopqrstuvwxyz'') c of
        None \<Rightarrow> c | Some d \<Rightarrow> d)"

definition upper_char :: "char \<Rightarrow> char" where
  "upper_char c =
     (case map_of (zip ''abcdefghijklmnopqrstuvwxyz'' ''ABCDEFGHIJKLMNOPQRSTUVWXYZ'') c of
        None \<Rightarrow> c | Some d \<Rightarrow> d)"

definition is_alpha :: "char \<Rightarrow> bool" where
  "is_alpha c = (c \<in> set ''abcdefghijklmnopqrstuvwxyzABCDEFGHIJKLMNOPQRSTUVWXYZ'')"

definition lower :: "string \<Rightarrow> string" where
  "lower s = map lower_char s"

text \<open>
  \<^verbatim>\<open>s.title()\<close>: a letter that follows a non-letter is raised, every other letter
  is lowered.
\<close>

fun title_from :: "bool \<Rightarrow> string \<Rightarrow> string" where
  "title_from prev [] = []"
| "title_from prev (c # cs) =
     (if prev then lower_char c else upper_char c) # title_from (is_alpha c) cs"

definition title :: "string \<Rightarrow> string" where
  "title s = title_from False s"

text \<open>\<^verbatim>\<open>str(n)\<close> of a natural number, in decimal.\<close>

fun str_nat :: "nat \<Rightarrow> string" where
  "str_nat n =
     (if n < 10 then [''0123456789'' ! n]
      else str_nat (n div 10) @ [''0123456789'' ! (n mod 10)])"

declare str_nat.simps [simp del]

text \<open>
  The components of \<^verbatim>\<open>PurePosixPath(s)\<close>: the text between slashes, without the
  empty components and the \<^verbatim>\<open>.\<close> components that pathlib drops. A path of the file
  system is the list of its components below the root.
\<close>

type_synonym path = "string list"

definition parts :: "string \<Rightarrow> path" where
  "parts s = filter (\<lambda>c. c \<noteq> [] \<and> c \<noteq> ''.'') (split_sep (CHR ''/'') s)"

text \<open>\<^verbatim>\<open>p / s\<close>: a segment that starts with a slash replaces the path.\<close>

definition joinpath :: "path \<Rightarrow> string \<Rightarrow> path" where
  "joinpath p s = (case s of [] \<Rightarrow> p | c # _ \<Rightarrow> if c = CHR ''/'' then parts s else p @ parts s)"

text \<open>
  \<^verbatim>\<open>p.name\<close>, \<^verbatim>\<open>p.suffix\<close> and \<^verbatim>\<open>p.stem\<close>, as pathlib defines them up to
  Python 3.13: the suffix starts at the last dot of the name, unless that dot is the
  first or the last character.
\<close>

definition path_name :: "path \<Rightarrow> string" where
  "path_name p = (case p of [] \<Rightarrow> [] | _ \<Rightarrow> last p)"

definition name_suffix :: "string \<Rightarrow> string" where
  "name_suffix nm =
     (let i = rfind nm (CHR ''.'')
      in if 0 < i \<and> i < int (length nm) - 1 then drop (nat i) nm else [])"

definition name_stem :: "string \<Rightarrow> string" where
  "name_stem nm =
     (let i = rfind nm (CHR ''.'')
      in if 0 < i \<and> i < int (length nm) - 1 then take (nat i) nm else nm)"

definition suffix_of :: "path \<Rightarrow> string" where
  "suffix_of p = name_suffix (path_name p)"

definition stem :: "path \<Rightarrow> string" where
  "stem p = name_stem (path_name p)"

text \<open>\<^verbatim>\<open>str(p)\<close> of an absolute path.\<close>

definition str_path :: "path \<Rightarrow> string" where
  "str_path p = (case p of [] \<Rightarrow> ''/'' | _ \<Rightarrow> concat (map (\<lambda>c. CHR ''/'' # c) p))"

section \<open>The file system\<close>

text \<open>
  The file system is a finite map from absolute paths to nodes, kept as an association
  list: a lookup takes the first binding of a path, and the order of the list stands
  for the order in which the operating system lists a directory (Python leaves it
  unspecified).
\<close>

type_synonym bytes = "8 word list"

datatype node = Dir | File bytes

type_synonym fs = "(path \<times> node) list"

definition exists_path :: "fs \<Rightarrow> path \<Rightarrow> bool" where
  "exists_path f p = (map_of f p \<noteq> None)"

definition is_dir :: "fs \<Rightarrow> path \<Rightarrow> bool" where
  "is_dir f p = (map_of f p = Some Dir)"

text \<open>
  What the program can raise: the framework's \<^verbatim>\<open>HTTPException\<close> with its status code
  and detail, \<^verbatim>\<open>subprocess.TimeoutExpired\<close> and any other exception, the last two kept
  with the text \<^verbatim>\<open>str(e)\<close> gives for them.
\<close>

datatype exn =
    HTTPException (status_code: nat) (detail: string)
  | TimeoutExpired string
  | Error string

definition quoted :: "path \<Rightarrow> string" where
  "quoted p = [CHR 0x27] @ str_path p @ [CHR 0x27]"

text \<open>
  \<^verbatim>\<open>p.iterdir()\<close>: the entries directly below \<open>p\<close>; raises on a path that is not a
  directory.
\<close>

definition iterdir :: "fs \<Rightarrow> path \<Rightarrow> exn + path list" where
  "iterdir f p =
     (if is_dir f p
      then Inr (remdups (filter (\<lambda>q. q \<noteq> [] \<and> butlast q = p) (map fst f)))
      else if exists_path f p then Inl (Error (''[Errno 20] Not a directory: '' @ quoted p))
      else Inl (Error (''[Errno 2] No such file or directory: '' @ quoted p)))"

text \<open>
  \<^verbatim>\<open>p.mkdir(exist_ok=True)\<close>: an existing directory is accepted, an existing file and
  a missing parent raise.
\<close>

definition mkdir_exist_ok :: "fs \<Rightarrow> path \<Rightarrow> exn + fs" where
  "mkdir_exist_ok f p =
     (if is_dir f p then Inr f
      else if exists_path f p then Inl (Error (''[Errno 17] File exists: '' @ quoted p))
      else if \<not> is_dir f (butlast p)
        then Inl (Error (''[Errno 2] No such file or directory: '' @ quoted p))
      else Inr (f @ [(p, Dir)]))"

text \<open>The binding of \<open>p\<close> replaced in place, or added at the end.\<close>

fun put :: "path \<Rightarrow> node \<Rightarrow> fs \<Rightarrow> fs" where
  "put p n [] = [(p, n)]"
| "put p n ((q, m) # f) = (if q = p then (p, n) # f else (q, m) # put p n f)"

definition remove :: "path \<Rightarrow> fs \<Rightarrow> fs" where
  "remove p f = filter (\<lambda>(q, _). q \<noteq> p) f"

definition remove_tree :: "path \<Rightarrow> fs \<Rightarrow> fs" where
  "remove_tree p f = filter (\<lambda>(q, _). \<not> prefix p q) f"

section \<open>The world outside the program\<close>

text \<open>
  The state the handlers read and change: the files, the records the logger has
  written, the command line of every call of \<^verbatim>\<open>subprocess.run\<close> so far, and the child
  processes that are still alive.
\<close>

datatype level = INFO | WARNING | ERROR

record world =
  files :: fs
  logs :: "(level \<times> string) list"
  invocations :: "string list list"
  running :: "string list list"

definition logger :: "level \<Rightarrow> string \<Rightarrow> world \<Rightarrow> world" where
  "logger lvl msg w = w\<lparr>logs := logs w @ [(lvl, msg)]\<rparr>"

text \<open>
  What a child process started on a command line does, seen from \<^verbatim>\<open>subprocess.run\<close>:
  it cannot be started (the exception's text), or it runs for some seconds and, left
  alone, ends with a return code and a standard error text. The files are those it
  leaves behind when it ends or is killed.
\<close>

datatype child = SpawnFails string | Runs real int string fs

datatype write_fault = OpenFault string | WriteFault string

text \<open>
  Everything the program does not decide itself: the identifier \<^verbatim>\<open>uuid.uuid4()\<close>
  returns, the behaviour of the separation engine, the text \<^verbatim>\<open>str(e)\<close> of the
  framework's \<^verbatim>\<open>HTTPException\<close> (it depends on the installed framework version), and
  the faults of the operating system when a file is written or removed.
\<close>

record env =
  uuid4 :: string
  child :: "string list \<Rightarrow> fs \<Rightarrow> child"
  http_str :: "nat \<Rightarrow> string \<Rightarrow> string"
  write_fault :: "path \<Rightarrow> write_fault option"
  unlink_error :: "path \<Rightarrow> string option"
  rmtree_error :: "path \<Rightarrow> string option"

text \<open>
  \<^verbatim>\<open>subprocess.run(cmd, capture_output=True, text=True, timeout=t)\<close>: the child is
  started and waited for; when it runs longer than \<open>t\<close> seconds it is killed and
  \<^verbatim>\<open>TimeoutExpired\<close> is raised, otherwise its return code and standard error are
  returned.
\<close>

definition timeout_text :: "string list \<Rightarrow> nat \<Rightarrow> string" where
  "timeout_text cmd t =
     ''Command '' @ [CHR 0x27, CHR ''[''] @ join '', '' (map (\<lambda>a. [CHR 0x27] @ a @ [CHR 0x27]) cmd)
       @ [CHR '']'', CHR 0x27] @ '' timed out after '' @ str_nat t @ '' seconds''"

definition subprocess_run ::
  "env \<Rightarrow> string list \<Rightarrow> nat \<Rightarrow> world \<Rightarrow> (exn + int \<times> string) \<times> world" where
  "subprocess_run e cmd t w =
     (let w0 = w\<lparr>invocations := invocations w @ [cmd]\<rparr>
      in case child e cmd (files w) of
           SpawnFails msg \<Rightarrow> (Inl (Error msg), w0)
         | Runs secs returncode err after \<Rightarrow>
             (let started = w0\<lparr>running := cmd # running w0\<rparr>;
                  ended = started\<lparr>files := after, running := remove1 cmd (running started)\<rparr>
              in if real t < secs then (Inl (TimeoutExpired (timeout_text cmd t)), ended)
                 else (Inr (returncode, err), ended)))"

text \<open>\<^verbatim>\<open>open(p, "wb")\<close> followed by \<^verbatim>\<open>f.write(content)\<close>.\<close>

definition write_file :: "env \<Rightarrow> fs \<Rightarrow> path \<Rightarrow> bytes \<Rightarrow> (exn + unit) \<times> fs" where
  "write_file e f p content =
     (if is_dir f p then (Inl (Error (''[Errno 21] Is a directory: '' @ quoted p)), f)
      else if \<not> is_dir f (butlast p)
        then (Inl (Error (''[Errno 2] No such file or directory: '' @ quoted p)), f)
      else (case write_fault e p of
              Some (OpenFault msg) \<Rightarrow> (Inl (Error msg), f)
            | Some (WriteFault msg) \<Rightarrow> (Inl (Error msg), put p (File []) f)
            | None \<Rightarrow> (Inr (), put p (File content) f)))"

text \<open>\<^verbatim>\<open>p.unlink()\<close>\<close>

definition unlink :: "env \<Rightarrow> fs \<Rightarrow> path \<Rightarrow> exn + fs" where
  "unlink e f p =
     (if is_dir f p then Inl (Error (''[Errno 21] Is a directory: '' @ quoted p))
      else if \<not> exists_path f p
        then Inl (Error (''[Errno 2] No such file or directory: '' @ quoted p))
      else (case unlink_error e p of
              Some msg \<Rightarrow> Inl (Error msg)
            | None \<Rightarrow> Inr (remove p f)))"

text \<open>
  \<^verbatim>\<open>shutil.rmtree(p)\<close>: the directory and everything below it. A failed call is
  modelled as leaving the tree as it was.
\<close>

definition rmtree :: "env \<Rightarrow> fs \<Rightarrow> path \<Rightarrow> exn + fs" where
  "rmtree e f p =
     (if \<not> exists_path f p
        then Inl (Error (''[Errno 2] No such file or directory: '' @ quoted p))
      else if \<not> is_dir f p then Inl (Error (''[Errno 20] Not a directory: '' @ quoted p))
      else (case rmtree_error e p of
              Some msg \<Rightarrow> Inl (Error msg)
            | None \<Rightarrow> Inr (remove_tree p f)))"

text \<open>\<^verbatim>\<open>str(e)\<close> of an exception.\<close>

definition exn_str :: "env \<Rightarrow> exn \<Rightarrow> string" where
  "exn_str e x =
     (case x of HTTPException s d \<Rightarrow> http_str e s d | TimeoutExpired msg \<Rightarrow> msg | Error msg \<Rightarrow> msg)"

section \<open>The service\<close>

subsection \<open>Constants\<close>

definition MAX_FILE_SIZE :: nat where
  "MAX_FILE_SIZE = 50 * 1024 * 1024"

text \<open>
  A Python set; the list fixes one order for the error text that joins its members.
\<close>

definition ALLOWED_EXTENSIONS :: "string list" where
  "ALLOWED_EXTENSIONS = [''.mp3'', ''.wav'']"

definition TEMP_DIR :: path where
  "TEMP_DIR = [''tmp'']"

subsection \<open>The uploaded file\<close>

text \<open>
  The fields of \<^verbatim>\<open>UploadFile\<close> the handlers read: the client's file name, the size
  the client declared (absent in framework versions without the attribute), and the
  bytes \<^verbatim>\<open>await file.read()\<close> returns.
\<close>

record upload =
  filename :: "string option"
  size_attr :: "nat option"
  content :: bytes

text \<open>\<^verbatim>\<open>x or d\<close> on an optional string: \<^verbatim>\<open>None\<close> and the empty string are false.\<close>

definition or_else :: "string option \<Rightarrow> string \<Rightarrow> string" where
  "or_else x d = (case x of None \<Rightarrow> d | Some s \<Rightarrow> if s = [] then d else s)"

definition unsupported_detail :: string where
  "unsupported_detail =
     ''Unsupported file format. Allowed formats: '' @ join '', '' ALLOWED_EXTENSIONS"

definition too_large_detail :: string where
  "too_large_detail =
     ''File too large. Maximum size: '' @ str_nat (MAX_FILE_SIZE div (1024 * 1024)) @ ''MB''"

text \<open>
  The extension \<^verbatim>\<open>validate_audio_file\<close> compares:
  \<^verbatim>\<open>Path(file.filename or "").suffix.lower()\<close>.
\<close>

definition file_ext :: "upload \<Rightarrow> string" where
  "file_ext file = lower (suffix_of (parts (or_else (filename file) [])))"

definition validate_audio_file :: "upload \<Rightarrow> exn + unit" where
  "validate_audio_file file =
     (if file_ext file \<notin> set ALLOWED_EXTENSIONS
      then Inl (HTTPException 400 unsupported_detail)
      else (case size_attr file of
              None \<Rightarrow> Inr ()
            | Some n \<Rightarrow>
                if n \<noteq> 0 \<and> n > MAX_FILE_SIZE
                then Inl (HTTPException 400 too_large_detail)
                else Inr ()))"

subsection \<open>The separation engine invoker\<close>

text \<open>
  The body of the \<^verbatim>\<open>try\<close> block of \<^verbatim>\<open>run_spleeter_separation\<close>: what it returns or
  raises, before the handlers of the block see it. The result is the dictionary of
  the two stems.
\<close>

definition spleeter_cmd :: "path \<Rightarrow> path \<Rightarrow> string list" where
  "spleeter_cmd input_file output_dir =
     [''spleeter'', ''separate'', ''-p'', ''spleeter:2stems-16kHz'',
      ''-o'', str_path output_dir, str_path input_file]"

definition run_spleeter_try ::
  "env \<Rightarrow> path \<Rightarrow> path \<Rightarrow> world \<Rightarrow> (exn + (string \<times> path) list) \<times> world" where
  "run_spleeter_try e input_file output_dir w =
     (let cmd = spleeter_cmd input_file output_dir;
          w1 = logger INFO (''Running Spleeter command: '' @ join '' '' cmd) w
      in case subprocess_run e cmd 300 w1 of
           (Inl x, w2) \<Rightarrow> (Inl x, w2)
         | (Inr (returncode, err), w2) \<Rightarrow>
             if returncode \<noteq> 0
             then (Inl (HTTPException 500 (''Audio separation failed: '' @ err)),
                   logger ERROR (''Spleeter failed: '' @ err) w2)
             else
               (let stem_name = stem input_file;
                    output_stem_dir = joinpath output_dir stem_name;
                    vocals_file = joinpath output_stem_dir ''vocals.wav'';
                    accompaniment_file = joinpath output_stem_dir ''accompaniment.wav''
                in if \<not> exists_path (files w2) vocals_file
                      \<or> \<not> exists_path (files w2) accompaniment_file
                   then (Inl (HTTPException 500
                           ''Separation completed but output files not found''), w2)
                   else (Inr [(''vocals'', vocals_file),
                              (''instrumental'', accompaniment_file)], w2)))"

text \<open>
  The handlers of the block. \<^verbatim>\<open>HTTPException\<close> is an \<^verbatim>\<open>Exception\<close>, and the block
  has no clause that re-raises it: the exceptions the body raises itself are caught
  by \<^verbatim>\<open>except Exception\<close> like any other.
\<close>

definition run_spleeter_separation ::
  "env \<Rightarrow> path \<Rightarrow> path \<Rightarrow> world \<Rightarrow> (exn + (string \<times> path) list) \<times> world" where
  "run_spleeter_separation e input_file output_dir w =
     (case run_spleeter_try e input_file output_dir w of
        (Inr d, w') \<Rightarrow> (Inr d, w')
      | (Inl x, w') \<Rightarrow>
          (case x of
             TimeoutExpired _ \<Rightarrow>
               (Inl (HTTPException 408
                  ''Processing timeout. Please try with a shorter audio file.''), w')
           | _ \<Rightarrow>
               (Inl (HTTPException 500 (''Audio separation failed: '' @ exn_str e x)),
                logger ERROR (''Spleeter separation error: '' @ exn_str e x) w')))"

subsection \<open>The upload handler\<close>

record separate_response =
  session_id :: string
  vocals_file :: string
  instrumental_file :: string
  original_filename :: "string option"
  message :: string

definition session_dir :: "string \<Rightarrow> path" where
  "session_dir sid = joinpath TEMP_DIR (''vocal_remover_'' @ sid)"

definition input_path :: "upload \<Rightarrow> path \<Rightarrow> path" where
  "input_path file session_temp_dir =
     joinpath session_temp_dir
       (''input'' @ suffix_of (parts (or_else (filename file) ''audio.mp3'')))"

definition str_opt :: "string option \<Rightarrow> string" where
  "str_opt x = (case x of None \<Rightarrow> ''None'' | Some s \<Rightarrow> s)"

text \<open>
  The \<^verbatim>\<open>try\<close> block of \<^verbatim>\<open>separate_audio\<close>: its result, the value of \<^verbatim>\<open>input_file\<close>
  when the block is left, and the world.
\<close>

definition separate_try ::
  "env \<Rightarrow> upload \<Rightarrow> string \<Rightarrow> path \<Rightarrow> world
     \<Rightarrow> (exn + separate_response) \<times> path option \<times> world" where
  "separate_try e file sid session_temp_dir w =
     (let input_file = input_path file session_temp_dir;
          body = content file
      in if length body > MAX_FILE_SIZE
         then (Inl (HTTPException 400 too_large_detail), Some input_file, w)
         else
           (case write_file e (files w) input_file body of
              (Inl x, f1) \<Rightarrow> (Inl x, Some input_file, w\<lparr>files := f1\<rparr>)
            | (Inr _, f1) \<Rightarrow>
                (let w1 = logger INFO (''Processing file: '' @ str_opt (filename file)
                            @ '' (Session: '' @ sid @ '')'') (w\<lparr>files := f1\<rparr>)
                 in case run_spleeter_separation e input_file session_temp_dir w1 of
                      (Inl x, w2) \<Rightarrow> (Inl x, Some input_file, w2)
                    | (Inr separated_files, w2) \<Rightarrow>
                        (Inr \<lparr>session_id = sid,
                              vocals_file = ''/download/'' @ sid @ ''/vocals'',
                              instrumental_file = ''/download/'' @ sid @ ''/instrumental'',
                              original_filename = filename file,
                              message = ''Separation completed successfully''\<rparr>,
                         Some input_file, w2))))"

text \<open>
  The \<^verbatim>\<open>except\<close> clauses: an \<^verbatim>\<open>HTTPException\<close> is raised again as it is, any other
  exception is logged and replaced.
\<close>

definition separate_except ::
  "env \<Rightarrow> exn + separate_response \<Rightarrow> world \<Rightarrow> (exn + separate_response) \<times> world" where
  "separate_except e r w =
     (case r of
        Inr resp \<Rightarrow> (Inr resp, w)
      | Inl x \<Rightarrow>
          (case x of
             HTTPException s d \<Rightarrow> (Inl (HTTPException s d), w)
           | _ \<Rightarrow>
               (Inl (HTTPException 500 (''An unexpected error occurred: '' @ exn_str e x)),
                logger ERROR (''Unexpected error during separation: '' @ exn_str e x) w)))"

text \<open>
  The \<^verbatim>\<open>finally\<close> clause: the input file is unlinked when it exists; an exception of
  the unlink is logged as a warning and dropped.
\<close>

definition separate_finally :: "env \<Rightarrow> path option \<Rightarrow> world \<Rightarrow> world" where
  "separate_finally e input_file w =
     (case input_file of
        None \<Rightarrow> w
      | Some p \<Rightarrow>
          if exists_path (files w) p
          then (case unlink e (files w) p of
                  Inr f' \<Rightarrow> w\<lparr>files := f'\<rparr>
                | Inl x \<Rightarrow> logger WARNING (''Failed to clean up input file: '' @ exn_str e x) w)
          else w)"

definition separate_audio :: "env \<Rightarrow> upload \<Rightarrow> world \<Rightarrow> (exn + separate_response) \<times> world" where
  "separate_audio e file w =
     (case validate_audio_file file of
        Inl x \<Rightarrow> (Inl x, w)
      | Inr _ \<Rightarrow>
          (let sid = uuid4 e;
               session_temp_dir = session_dir sid
           in case mkdir_exist_ok (files w) session_temp_dir of
                Inl x \<Rightarrow> (Inl x, w)
              | Inr f1 \<Rightarrow>
                  (case separate_try e file sid session_temp_dir (w\<lparr>files := f1\<rparr>) of
                     (r, input_file, w2) \<Rightarrow>
                       (case separate_except e r w2 of
                          (r', w3) \<Rightarrow> (r', separate_finally e input_file w3)))))"

subsection \<open>The download resolver\<close>

record file_response =
  resp_path :: string
  resp_filename :: string
  media_type :: string

definition download_track :: "string \<Rightarrow> string \<Rightarrow> world \<Rightarrow> exn + file_response" where
  "download_track sid track_type w =
     (if track_type \<notin> set [''vocals'', ''instrumental'']
      then Inl (HTTPException 400 ''Invalid track type'')
      else
        (let session_temp_dir = session_dir sid
         in if \<not> exists_path (files w) session_temp_dir
            then Inl (HTTPException 404 ''Session not found or expired'')
            else
              (case iterdir (files w) session_temp_dir of
                 Inl x \<Rightarrow> Inl x
               | Inr entries \<Rightarrow>
                   (let output_dirs = filter (is_dir (files w)) entries
                    in case output_dirs of
                         [] \<Rightarrow> Inl (HTTPException 404 ''Processed files not found'')
                       | output_dir # _ \<Rightarrow>
                           (let file_path =
                                  (if track_type = ''vocals''
                                   then joinpath output_dir ''vocals.wav''
                                   else joinpath output_dir ''accompaniment.wav'');
                                fname =
                                  (if track_type = ''vocals'' then ''vocals.wav''
                                   else ''instrumental.wav'')
                            in if \<not> exists_path (files w) file_path
                               then Inl (HTTPException 404
                                           (title track_type @ '' file not found''))
                               else Inr \<lparr>resp_path = str_path file_path,
                                         resp_filename = fname,
                                         media_type = ''audio/wav''\<rparr>)))))"

subsection \<open>The cleanup controller\<close>

definition cleanup_session ::
  "env \<Rightarrow> string \<Rightarrow> world \<Rightarrow> (exn + (string \<times> string) list) \<times> world" where
  "cleanup_session e sid w =
     (let session_temp_dir = session_dir sid
      in if exists_path (files w) session_temp_dir
         then (case rmtree e (files w) session_temp_dir of
                 Inr f' \<Rightarrow>
                   (Inr [(''message'', ''Session cleaned up successfully'')], w\<lparr>files := f'\<rparr>)
               | Inl x \<Rightarrow>
                   (Inl (HTTPException 500 ''Cleanup failed''),
                    logger ERROR (''Failed to clean up session '' @ sid @ '': '' @ exn_str e x) w))
         else (Inr [(''message'', ''Session not found or already cleaned up'')], w))"

section \<open>Example environments and inputs\<close>

text \<open>
  A framework that prints an \<^verbatim>\<open>HTTPException\<close> as \<^verbatim>\<open>"{status_code}: {detail}"\<close>, an
  operating system without faults, and an engine that fails at once with the text
  \<^verbatim>\<open>boom\<close>.
\<close>

definition quiet_env :: env where
  "quiet_env = \<lparr>uuid4 = ''abc'',
     child = (\<lambda>cmd f. Runs 1 1 ''boom'' f),
     http_str = (\<lambda>s d. str_nat s @ '': '' @ d),
     write_fault = (\<lambda>_. None), unlink_error = (\<lambda>_. None), rmtree_error = (\<lambda>_. None)\<rparr>"

text \<open>An engine that exits with status zero and writes nothing.\<close>

definition silent_env :: env where
  "silent_env = quiet_env\<lparr>child := (\<lambda>cmd f. Runs 1 0 [] f)\<rparr>"

text \<open>An engine that is not installed.\<close>

definition no_engine_env :: env where
  "no_engine_env = quiet_env\<lparr>child := (\<lambda>cmd f.
      SpawnFails (''[Errno 2] No such file or directory: ''
        @ [CHR 0x27] @ ''spleeter'' @ [CHR 0x27]))\<rparr>"

text \<open>An engine that needs 301 seconds.\<close>

definition slow_env :: env where
  "slow_env = quiet_env\<lparr>child := (\<lambda>cmd f. Runs 301 0 [] f)\<rparr>"


text \<open>An operating system that refuses every unlink.\<close>

definition stuck_env :: env where
  "stuck_env = quiet_env\<lparr>unlink_error := (\<lambda>_. Some ''[Errno 13] Permission denied'')\<rparr>"

text \<open>A machine on which only \<^verbatim>\<open>/tmp\<close> exists.\<close>

definition tmp_world :: world where
  "tmp_world =
     \<lparr>files = [([], Dir), ([''tmp''], Dir)], logs = [], invocations = [], running = []\<rparr>"

text \<open>The workspace of session \<^verbatim>\<open>abc\<close> with the input file saved.\<close>

definition abc_dir :: path where
  "abc_dir = [''tmp'', ''vocal_remover_abc'']"

definition abc_input :: path where
  "abc_input = [''tmp'', ''vocal_remover_abc'', ''input.mp3'']"

definition abc_cmd :: "string list" where
  "abc_cmd = [''spleeter'', ''separate'', ''-p'', ''spleeter:2stems-16kHz'', ''-o'',
              ''/tmp/vocal_remover_abc'', ''/tmp/vocal_remover_abc/input.mp3'']"

definition saved_world :: world where
  "saved_world =
     \<lparr>files = [([], Dir), ([''tmp''], Dir), ([''tmp'', ''vocal_remover_abc''], Dir),
               ([''tmp'', ''vocal_remover_abc'', ''input.mp3''], File [1, 2, 3])],
      logs = [], invocations = [], running = []\<rparr>"

text \<open>The workspace of session \<^verbatim>\<open>abc\<close> after a separation that succeeded.\<close>

definition done_world :: world where
  "done_world =
     \<lparr>files = [([], Dir), ([''tmp''], Dir), ([''tmp'', ''vocal_remover_abc''], Dir),
               ([''tmp'', ''vocal_remover_abc'', ''input''], Dir),
               ([''tmp'', ''vocal_remover_abc'', ''input'', ''vocals.wav''], File [1]),
               ([''tmp'', ''vocal_remover_abc'', ''input'', ''accompaniment.wav''], File [2])],
      logs = [], invocations = [], running = []\<rparr>"


definition mp3_upload :: upload where
  "mp3_upload = \<lparr>filename = Some ''song.mp3'', size_attr = Some 3, content = [1, 2, 3]\<rparr>"

definition ogg_upload :: upload where
  "ogg_upload = \<lparr>filename = Some ''song.ogg'', size_attr = None, content = []\<rparr>"

definition nameless_upload :: upload where
  "nameless_upload = \<lparr>filename = None, size_attr = None, content = []\<rparr>"

text \<open>One byte more than the ceiling, declared by the client as 1024 bytes.\<close>

definition big_content :: bytes where
  "big_content = replicate (Suc MAX_FILE_SIZE) 0"

definition big_upload :: upload where
  "big_upload = \<lparr>filename = Some ''song.wav'', size_attr = Some 1024, content = big_content\<rparr>"



section \<open>Evaluation rules\<close>

lemmas string_eval = split_sep.simps parts_def joinpath_def path_name_def name_suffix_def
  name_stem_def suffix_of_def stem_def str_path_def rfind_def lower_def lower_char_def
  or_else_def file_ext_def

lemmas fs_eval = exists_path_def is_dir_def iterdir_def mkdir_exist_ok_def remove_def
  remove_tree_def quoted_def session_dir_def TEMP_DIR_def input_path_def

lemmas handler_eval = separate_audio_def separate_try_def separate_except_def
  separate_finally_def run_spleeter_separation_def run_spleeter_try_def subprocess_run_def
  validate_audio_file_def write_file_def unlink_def logger_def exn_str_def spleeter_cmd_def
  MAX_FILE_SIZE_def ALLOWED_EXTENSIONS_def str_opt_def Let_def

lemma length_big_content: "length big_content = Suc MAX_FILE_SIZE"
  by (simp add: big_content_def)

lemma too_large_detail_text: "too_large_detail = ''File too large. Maximum size: 50MB''"
  by (simp add: too_large_detail_def MAX_FILE_SIZE_def str_nat.simps)

lemma unsupported_detail_text:
  "unsupported_detail = ''Unsupported file format. Allowed formats: .mp3, .wav''"
  by (simp add: unsupported_detail_def ALLOWED_EXTENSIONS_def)

lemma abc_cmd_eq: "spleeter_cmd abc_input abc_dir = abc_cmd"
  by (simp add: spleeter_cmd_def abc_input_def abc_dir_def abc_cmd_def str_path_def)

lemma abc_session_dir: "session_dir ''abc'' = abc_dir"
  by (simp add: abc_dir_def fs_eval string_eval)

lemma abc_input_path: "input_path mp3_upload abc_dir = abc_input"
  by (simp add: abc_dir_def abc_input_def mp3_upload_def fs_eval string_eval)

lemma mp3_upload_valid: "validate_audio_file mp3_upload = Inr ()"
  by (simp add: validate_audio_file_def mp3_upload_def MAX_FILE_SIZE_def ALLOWED_EXTENSIONS_def
      string_eval)

lemma tmp_world_mkdir:
  "mkdir_exist_ok (files tmp_world) (session_dir ''abc'')
     = Inr (files tmp_world @ [([''tmp'', ''vocal_remover_abc''], Dir)])"
  by (simp add: tmp_world_def fs_eval string_eval)

text \<open>Three requests, run from start to end.\<close>

lemma quiet_run:
  "separate_audio quiet_env mp3_upload tmp_world
    = (Inl (HTTPException 500 ''Audio separation failed: 500: Audio separation failed: boom''),
       \<lparr>files = [([], Dir), ([''tmp''], Dir), ([''tmp'', ''vocal_remover_abc''], Dir)],
        logs = [(INFO, ''Processing file: song.mp3 (Session: abc)''),
                (INFO, ''Running Spleeter command: spleeter separate -p spleeter:2stems-16kHz -o /tmp/vocal_remover_abc /tmp/vocal_remover_abc/input.mp3''),
                (ERROR, ''Spleeter failed: boom''),
                (ERROR, ''Spleeter separation error: 500: Audio separation failed: boom'')],
        invocations = [abc_cmd], running = []\<rparr>)"
  by (simp add: handler_eval quiet_env_def mp3_upload_def tmp_world_def abc_cmd_def
      str_nat.simps fs_eval string_eval)

lemma stuck_run:
  "separate_audio stuck_env mp3_upload tmp_world
    = (Inl (HTTPException 500 ''Audio separation failed: 500: Audio separation failed: boom''),
       \<lparr>files = [([], Dir), ([''tmp''], Dir), ([''tmp'', ''vocal_remover_abc''], Dir),
                 ([''tmp'', ''vocal_remover_abc'', ''input.mp3''], File [1, 2, 3])],
        logs = [(INFO, ''Processing file: song.mp3 (Session: abc)''),
                (INFO, ''Running Spleeter command: spleeter separate -p spleeter:2stems-16kHz -o /tmp/vocal_remover_abc /tmp/vocal_remover_abc/input.mp3''),
                (ERROR, ''Spleeter failed: boom''),
                (ERROR, ''Spleeter separation error: 500: Audio separation failed: boom''),
                (WARNING, ''Failed to clean up input file: [Errno 13] Permission denied'')],
        invocations = [abc_cmd], running = []\<rparr>)"
  by (simp add: handler_eval stuck_env_def quiet_env_def mp3_upload_def tmp_world_def abc_cmd_def
      str_nat.simps fs_eval string_eval)

lemma slow_run:
  "separate_audio slow_env mp3_upload tmp_world
    = (Inl (HTTPException 408 ''Processing timeout. Please try with a shorter audio file.''),
       \<lparr>files = [([], Dir), ([''tmp''], Dir), ([''tmp'', ''vocal_remover_abc''], Dir)],
        logs = [(INFO, ''Processing file: song.mp3 (Session: abc)''),
                (INFO, ''Running Spleeter command: spleeter separate -p spleeter:2stems-16kHz -o /tmp/vocal_remover_abc /tmp/vocal_remover_abc/input.mp3'')],
        invocations = [abc_cmd], running = []\<rparr>)"
  by (simp add: handler_eval slow_env_def quiet_env_def mp3_upload_def tmp_world_def abc_cmd_def
      str_nat.simps fs_eval string_eval)

section \<open>Facts about paths and files\<close>




lemma exists_path_remove: "\<not> exists_path (remove p f) p"
  by (auto simp: exists_path_def remove_def map_of_eq_None_iff)

lemma exists_path_remove_tree: "\<not> exists_path (remove_tree p f) p"
  by (auto simp: exists_path_def remove_tree_def map_of_eq_None_iff)




lemma write_file_not_http: "fst (write_file e f p c) \<noteq> Inl (HTTPException s d)"
  by (simp add: write_file_def split: option.splits write_fault.splits)

lemma unlink_removes:
  "unlink e f p = Inr f' \<Longrightarrow> \<not> exists_path f' p"
  by (auto simp: unlink_def exists_path_remove split: if_splits option.splits)


lemma mkdir_not_http: "mkdir_exist_ok f p \<noteq> Inl (HTTPException s d)"
  by (simp add: mkdir_exist_ok_def)

section \<open>The file validator\<close>

text \<open>
  Claim C4. An upload whose file name extension, compared without regard to case, is
  not \<^verbatim>\<open>.mp3\<close> or \<^verbatim>\<open>.wav\<close> is rejected with status 400 and the unsupported-format
  detail, and the world is returned as it was: no workspace directory has been
  created, no file written, no child process started, nothing logged.
\<close>

theorem bad_extension_rejected:
  "file_ext file \<notin> {''.mp3'', ''.wav''} \<Longrightarrow>
   separate_audio e file w = (Inl (HTTPException 400 unsupported_detail), w)"
  by (simp add: separate_audio_def validate_audio_file_def ALLOWED_EXTENSIONS_def)

theorem bad_extension_rejected_witness:
  "file_ext ogg_upload \<notin> {''.mp3'', ''.wav''} \<and>
   separate_audio quiet_env ogg_upload tmp_world
     = (Inl (HTTPException 400 ''Unsupported file format. Allowed formats: .mp3, .wav''),
        tmp_world)"
proof -
  have ext: "file_ext ogg_upload \<notin> {''.mp3'', ''.wav''}"
    by (simp add: ogg_upload_def string_eval)
  show ?thesis
    using ext bad_extension_rejected [OF ext, of quiet_env tmp_world]
    by (simp add: unsupported_detail_text)
qed

lemma file_ext_no_suffix:
  assumes "filename file = None \<or> (\<exists>f. filename file = Some f \<and> suffix_of (parts f) = [])"
  shows "file_ext file = []"
proof (cases "filename file")
  case None
  then show ?thesis
    by (simp add: file_ext_def or_else_def lower_def parts_def suffix_of_def path_name_def
        name_suffix_def rfind_def)
next
  case (Some f)
  with assms have "suffix_of (parts f) = []" by simp
  moreover have "or_else (Some f) [] = f" by (simp add: or_else_def)
  ultimately show ?thesis using Some by (simp add: file_ext_def lower_def)
qed

text \<open>
  Claim C9. When the upload has no file name, or its file name has no extension, the
  extension the validator compares is the empty string, which is not an allowed
  extension: the validator rejects with status 400 and the unsupported-format detail,
  and the upload handler returns that error with the world unchanged, so such an
  upload is never processed.
\<close>

theorem missing_extension_rejected:
  assumes "filename file = None \<or> (\<exists>f. filename file = Some f \<and> suffix_of (parts f) = [])"
  shows "file_ext file = [] \<and>
         validate_audio_file file = Inl (HTTPException 400 unsupported_detail) \<and>
         separate_audio e file w = (Inl (HTTPException 400 unsupported_detail), w)"
  using file_ext_no_suffix [OF assms]
  by (simp add: separate_audio_def validate_audio_file_def ALLOWED_EXTENSIONS_def)

theorem missing_extension_rejected_witness:
  "filename nameless_upload = None \<and>
   validate_audio_file nameless_upload
     = Inl (HTTPException 400 ''Unsupported file format. Allowed formats: .mp3, .wav'') \<and>
   separate_audio quiet_env nameless_upload tmp_world
     = (Inl (HTTPException 400 ''Unsupported file format. Allowed formats: .mp3, .wav''),
        tmp_world)"
proof -
  have h: "filename nameless_upload = None
      \<or> (\<exists>f. filename nameless_upload = Some f \<and> suffix_of (parts f) = [])"
    by (simp add: nameless_upload_def)
  show ?thesis
    using missing_extension_rejected [OF h, of quiet_env tmp_world]
    by (simp add: unsupported_detail_text nameless_upload_def)
qed

text \<open>
  Claim C3. An upload with an allowed extension whose body is longer than the ceiling
  is rejected with status 400 and the too-large detail, whatever size the client
  declared (none, too small, or the true one), provided the workspace directory can be
  created: the length of the body that was read is checked after the declared size.
\<close>

theorem oversize_body_rejected:
  assumes ext: "file_ext file \<in> {''.mp3'', ''.wav''}"
    and big: "MAX_FILE_SIZE < length (content file)"
    and dir: "mkdir_exist_ok (files w) (session_dir (uuid4 e)) = Inr f1"
  shows "fst (separate_audio e file w) = Inl (HTTPException 400 too_large_detail)"
proof (cases "validate_audio_file file")
  case (Inl x)
  with ext have "x = HTTPException 400 too_large_detail"
    by (auto simp: validate_audio_file_def ALLOWED_EXTENSIONS_def split: option.splits if_splits)
  with Inl show ?thesis by (simp add: separate_audio_def)
next
  case (Inr u)
  with big dir show ?thesis
    by (simp add: separate_audio_def separate_try_def separate_except_def Let_def)
qed

theorem oversize_body_rejected_witness:
  "file_ext big_upload \<in> {''.mp3'', ''.wav''} \<and> size_attr big_upload = Some 1024 \<and>
   MAX_FILE_SIZE < length (content big_upload) \<and>
   fst (separate_audio quiet_env big_upload tmp_world)
     = Inl (HTTPException 400 ''File too large. Maximum size: 50MB'')"
proof -
  have ext: "file_ext big_upload \<in> {''.mp3'', ''.wav''}"
    by (simp add: big_upload_def string_eval)
  have big: "MAX_FILE_SIZE < length (content big_upload)"
    by (simp add: big_upload_def length_big_content)
  have dir: "mkdir_exist_ok (files tmp_world) (session_dir (uuid4 quiet_env))
      = Inr (files tmp_world @ [([''tmp'', ''vocal_remover_abc''], Dir)])"
    by (simp add: quiet_env_def tmp_world_mkdir)
  show ?thesis
    using ext big oversize_body_rejected [OF ext big dir]
    by (simp add: too_large_detail_text big_upload_def)
qed

section \<open>The separation engine invoker\<close>

subsection \<open>What a run changes\<close>

lemma subprocess_run_invocations:
  "invocations (snd (subprocess_run e cmd t w)) = invocations w @ [cmd]"
  by (simp add: subprocess_run_def Let_def split: child.splits)

lemma subprocess_run_running:
  "running (snd (subprocess_run e cmd t w)) = running w"
  by (simp add: subprocess_run_def Let_def split: child.splits)

lemma subprocess_run_timeout:
  "(\<exists>m. fst (subprocess_run e cmd t w) = Inl (TimeoutExpired m))
     = (\<exists>secs rc err after. child e cmd (files w) = Runs secs rc err after \<and> real t < secs)"
  by (auto simp: subprocess_run_def Let_def split: child.splits)


lemma run_spleeter_try_invocations:
  "invocations (snd (run_spleeter_try e inp out w)) = invocations w @ [spleeter_cmd inp out]"
proof -
  let ?w1 = "logger INFO (''Running Spleeter command: '' @ join '' '' (spleeter_cmd inp out)) w"
  obtain r w2 where run: "subprocess_run e (spleeter_cmd inp out) 300 ?w1 = (r, w2)"
    by (cases "subprocess_run e (spleeter_cmd inp out) 300 ?w1")
  have "invocations w2 = invocations ?w1 @ [spleeter_cmd inp out]"
    using subprocess_run_invocations [of e "spleeter_cmd inp out" 300 ?w1] run by simp
  then have w2: "invocations w2 = invocations w @ [spleeter_cmd inp out]"
    by (simp add: logger_def)
  show ?thesis
    using run w2
    by (auto simp: run_spleeter_try_def Let_def logger_def split: sum.splits prod.splits)
qed

lemma run_spleeter_try_running:
  "running (snd (run_spleeter_try e inp out w)) = running w"
proof -
  let ?w1 = "logger INFO (''Running Spleeter command: '' @ join '' '' (spleeter_cmd inp out)) w"
  obtain r w2 where run: "subprocess_run e (spleeter_cmd inp out) 300 ?w1 = (r, w2)"
    by (cases "subprocess_run e (spleeter_cmd inp out) 300 ?w1")
  have "running w2 = running ?w1"
    using subprocess_run_running [of e "spleeter_cmd inp out" 300 ?w1] run by simp
  then have w2: "running w2 = running w"
    by (simp add: logger_def)
  show ?thesis
    using run w2
    by (auto simp: run_spleeter_try_def Let_def logger_def split: sum.splits prod.splits)
qed

lemma run_spleeter_try_timeout:
  "(\<exists>m. fst (run_spleeter_try e inp out w) = Inl (TimeoutExpired m))
     = (\<exists>secs rc err after.
          child e (spleeter_cmd inp out) (files w) = Runs secs rc err after \<and> 300 < secs)"
proof -
  let ?w1 = "logger INFO (''Running Spleeter command: '' @ join '' '' (spleeter_cmd inp out)) w"
  have f: "files ?w1 = files w" by (simp add: logger_def)
  have "(\<exists>m. fst (run_spleeter_try e inp out w) = Inl (TimeoutExpired m))
     = (\<exists>m. fst (subprocess_run e (spleeter_cmd inp out) 300 ?w1) = Inl (TimeoutExpired m))"
    by (auto simp: run_spleeter_try_def Let_def split: sum.splits prod.splits if_splits)
  then show ?thesis
    using subprocess_run_timeout [of e "spleeter_cmd inp out" 300 ?w1] f by simp
qed


lemma run_spleeter_try_missing:
  assumes run: "child e (spleeter_cmd inp out) (files w) = Runs secs 0 err after"
    and intime: "secs \<le> 300"
    and missing: "\<not> exists_path after (joinpath (joinpath out (stem inp)) ''vocals.wav'')
       \<or> \<not> exists_path after (joinpath (joinpath out (stem inp)) ''accompaniment.wav'')"
  shows "fst (run_spleeter_try e inp out w)
     = Inl (HTTPException 500 ''Separation completed but output files not found'')"
  using assms
  by (auto simp: run_spleeter_try_def subprocess_run_def Let_def logger_def)

lemma run_spleeter_try_failed:
  assumes run: "child e (spleeter_cmd inp out) (files w) = Runs secs rc err after"
    and intime: "secs \<le> 300"
    and failed: "rc \<noteq> 0"
  shows "fst (run_spleeter_try e inp out w)
     = Inl (HTTPException 500 (''Audio separation failed: '' @ err))"
  using assms
  by (auto simp: run_spleeter_try_def subprocess_run_def Let_def logger_def)

lemma run_spleeter_try_not_started:
  assumes "child e (spleeter_cmd inp out) (files w) = SpawnFails msg"
  shows "fst (run_spleeter_try e inp out w) = Inl (Error msg)"
  using assms
  by (auto simp: run_spleeter_try_def subprocess_run_def Let_def logger_def)

lemma run_spleeter_try_both:
  assumes "fst (run_spleeter_try e inp out w) = Inr d"
  shows "d = [(''vocals'', joinpath (joinpath out (stem inp)) ''vocals.wav''),
              (''instrumental'', joinpath (joinpath out (stem inp)) ''accompaniment.wav'')]
     \<and> exists_path (files (snd (run_spleeter_try e inp out w)))
          (joinpath (joinpath out (stem inp)) ''vocals.wav'')
     \<and> exists_path (files (snd (run_spleeter_try e inp out w)))
          (joinpath (joinpath out (stem inp)) ''accompaniment.wav'')"
  using assms
  by (auto simp: run_spleeter_try_def Let_def split: prod.splits sum.splits if_splits)

lemma run_spleeter_separation_408:
  "(fst (run_spleeter_separation e inp out w) = Inl (HTTPException 408 d))
     = ((\<exists>m. fst (run_spleeter_try e inp out w) = Inl (TimeoutExpired m))
        \<and> d = ''Processing timeout. Please try with a shorter audio file.'')"
  by (auto simp: run_spleeter_separation_def split: sum.splits prod.splits exn.splits)

lemma run_spleeter_separation_invocations:
  "invocations (snd (run_spleeter_separation e inp out w))
     = invocations w @ [spleeter_cmd inp out]"
  using run_spleeter_try_invocations [of e inp out w]
  by (auto simp: run_spleeter_separation_def logger_def split: sum.splits prod.splits exn.splits)

lemma run_spleeter_separation_running:
  "running (snd (run_spleeter_separation e inp out w)) = running w"
  using run_spleeter_try_running [of e inp out w]
  by (auto simp: run_spleeter_separation_def logger_def split: sum.splits prod.splits exn.splits)


lemma run_spleeter_separation_both:
  assumes "fst (run_spleeter_separation e inp out w) = Inr d"
  shows "d = [(''vocals'', joinpath (joinpath out (stem inp)) ''vocals.wav''),
              (''instrumental'', joinpath (joinpath out (stem inp)) ''accompaniment.wav'')]
     \<and> exists_path (files (snd (run_spleeter_separation e inp out w)))
          (joinpath (joinpath out (stem inp)) ''vocals.wav'')
     \<and> exists_path (files (snd (run_spleeter_separation e inp out w)))
          (joinpath (joinpath out (stem inp)) ''accompaniment.wav'')"
proof -
  obtain r w' where tr: "run_spleeter_try e inp out w = (r, w')"
    by (cases "run_spleeter_try e inp out w")
  with assms have "r = Inr d \<and> snd (run_spleeter_separation e inp out w) = w'"
    by (auto simp: run_spleeter_separation_def split: sum.splits exn.splits)
  with tr run_spleeter_try_both [of e inp out w d] show ?thesis by simp
qed

lemma run_spleeter_separation_wraps:
  assumes "fst (run_spleeter_try e inp out w) = Inl x" and "\<forall>m. x \<noteq> TimeoutExpired m"
  shows "\<exists>d. fst (run_spleeter_separation e inp out w) = Inl (HTTPException 500 d)"
  using assms
  by (auto simp: run_spleeter_separation_def split: sum.splits prod.splits exn.splits)

lemma run_spleeter_separation_missing:
  assumes run: "child e (spleeter_cmd inp out) (files w) = Runs secs 0 err after"
    and intime: "secs \<le> 300"
    and missing: "\<not> exists_path after (joinpath (joinpath out (stem inp)) ''vocals.wav'')
       \<or> \<not> exists_path after (joinpath (joinpath out (stem inp)) ''accompaniment.wav'')"
  shows "\<exists>d. fst (run_spleeter_separation e inp out w) = Inl (HTTPException 500 d)"
  using run_spleeter_separation_wraps [OF run_spleeter_try_missing [OF assms]] by simp

lemma run_spleeter_separation_failed:
  assumes run: "child e (spleeter_cmd inp out) (files w) = Runs secs rc err after"
    and intime: "secs \<le> 300"
    and failed: "rc \<noteq> 0"
  shows "\<exists>d. fst (run_spleeter_separation e inp out w) = Inl (HTTPException 500 d)"
  using run_spleeter_separation_wraps [OF run_spleeter_try_failed [OF assms]] by simp

lemma run_spleeter_separation_not_started:
  assumes "child e (spleeter_cmd inp out) (files w) = SpawnFails msg"
  shows "\<exists>d. fst (run_spleeter_separation e inp out w) = Inl (HTTPException 500 d)"
  using run_spleeter_separation_wraps [OF run_spleeter_try_not_started [OF assms]] by simp

subsection \<open>The engine's output is missing\<close>

text \<open>
  Claim C2 as the specification states it fails. An engine that exits with status zero
  and leaves no output, an engine that exits with status 1, and an engine that cannot
  be started all make \<^verbatim>\<open>run_spleeter_separation\<close> raise an \<^verbatim>\<open>HTTPException\<close> with the
  same status code 500: the status code does not set the missing output apart from an
  engine failure or from a failure to start the engine.
\<close>

theorem missing_output_kind_counterexample:
  "fst (run_spleeter_separation silent_env abc_input abc_dir saved_world)
     = Inl (HTTPException 500
         ''Audio separation failed: 500: Separation completed but output files not found'')
   \<and> fst (run_spleeter_separation quiet_env abc_input abc_dir saved_world)
     = Inl (HTTPException 500
         ''Audio separation failed: 500: Audio separation failed: boom'')
   \<and> fst (run_spleeter_separation no_engine_env abc_input abc_dir saved_world)
     = Inl (HTTPException 500
         (''Audio separation failed: [Errno 2] No such file or directory: ''
            @ [CHR 0x27] @ ''spleeter'' @ [CHR 0x27]))"
  by (simp add: run_spleeter_separation_def run_spleeter_try_def subprocess_run_def
      silent_env_def quiet_env_def no_engine_env_def saved_world_def abc_dir_def abc_input_def
      logger_def exn_str_def spleeter_cmd_def str_nat.simps fs_eval string_eval)

text \<open>
  Claim C2, amended. When the engine exits in time with status zero and one of the two
  expected output files is missing, \<^verbatim>\<open>run_spleeter_separation\<close> raises an
  \<^verbatim>\<open>HTTPException\<close> with status 500. An engine that exits in time with another
  status, and an engine that cannot be started, give status 500 as well. And no run
  returns a single stem: a successful result names both files, and both exist.
\<close>

theorem missing_output_is_a_500:
  assumes run: "child e (spleeter_cmd inp out) (files w) = Runs secs 0 err after"
    and intime: "secs \<le> 300"
    and missing: "\<not> exists_path after (joinpath (joinpath out (stem inp)) ''vocals.wav'')
       \<or> \<not> exists_path after (joinpath (joinpath out (stem inp)) ''accompaniment.wav'')"
  shows "(\<exists>d. fst (run_spleeter_separation e inp out w) = Inl (HTTPException 500 d))
     \<and> (\<forall>e' inp' out' w' secs' rc err' after'.
           child e' (spleeter_cmd inp' out') (files w') = Runs secs' rc err' after' \<longrightarrow>
           secs' \<le> 300 \<longrightarrow> rc \<noteq> 0 \<longrightarrow>
           (\<exists>d. fst (run_spleeter_separation e' inp' out' w') = Inl (HTTPException 500 d)))
     \<and> (\<forall>e' inp' out' w' msg.
           child e' (spleeter_cmd inp' out') (files w') = SpawnFails msg \<longrightarrow>
           (\<exists>d. fst (run_spleeter_separation e' inp' out' w') = Inl (HTTPException 500 d)))
     \<and> (\<forall>e' inp' out' w' d.
           fst (run_spleeter_separation e' inp' out' w') = Inr d \<longrightarrow>
             d = [(''vocals'', joinpath (joinpath out' (stem inp')) ''vocals.wav''),
                  (''instrumental'', joinpath (joinpath out' (stem inp')) ''accompaniment.wav'')]
             \<and> exists_path (files (snd (run_spleeter_separation e' inp' out' w')))
                  (joinpath (joinpath out' (stem inp')) ''vocals.wav'')
             \<and> exists_path (files (snd (run_spleeter_separation e' inp' out' w')))
                  (joinpath (joinpath out' (stem inp')) ''accompaniment.wav''))"
proof (intro conjI)
  show "\<exists>d. fst (run_spleeter_separation e inp out w) = Inl (HTTPException 500 d)"
    by (rule run_spleeter_separation_missing [OF assms])
next
  show "\<forall>e' inp' out' w' secs' rc err' after'.
           child e' (spleeter_cmd inp' out') (files w') = Runs secs' rc err' after' \<longrightarrow>
           secs' \<le> 300 \<longrightarrow> rc \<noteq> 0 \<longrightarrow>
           (\<exists>d. fst (run_spleeter_separation e' inp' out' w') = Inl (HTTPException 500 d))"
    using run_spleeter_separation_failed by blast
next
  show "\<forall>e' inp' out' w' msg.
           child e' (spleeter_cmd inp' out') (files w') = SpawnFails msg \<longrightarrow>
           (\<exists>d. fst (run_spleeter_separation e' inp' out' w') = Inl (HTTPException 500 d))"
    using run_spleeter_separation_not_started by blast
next
  show "\<forall>e' inp' out' w' d.
           fst (run_spleeter_separation e' inp' out' w') = Inr d \<longrightarrow>
             d = [(''vocals'', joinpath (joinpath out' (stem inp')) ''vocals.wav''),
                  (''instrumental'', joinpath (joinpath out' (stem inp')) ''accompaniment.wav'')]
             \<and> exists_path (files (snd (run_spleeter_separation e' inp' out' w')))
                  (joinpath (joinpath out' (stem inp')) ''vocals.wav'')
             \<and> exists_path (files (snd (run_spleeter_separation e' inp' out' w')))
                  (joinpath (joinpath out' (stem inp')) ''accompaniment.wav'')"
    using run_spleeter_separation_both by blast
qed

theorem missing_output_is_a_500_witness:
  "child silent_env (spleeter_cmd abc_input abc_dir) (files saved_world)
      = Runs 1 0 [] (files saved_world)
   \<and> \<not> exists_path (files saved_world)
        (joinpath (joinpath abc_dir (stem abc_input)) ''vocals.wav'')
   \<and> (\<exists>d. fst (run_spleeter_separation silent_env abc_input abc_dir saved_world)
          = Inl (HTTPException 500 d))"
proof -
  have run: "child silent_env (spleeter_cmd abc_input abc_dir) (files saved_world)
      = Runs 1 0 [] (files saved_world)"
    by (simp add: silent_env_def quiet_env_def)
  have intime: "(1::real) \<le> 300" by simp
  have gone: "\<not> exists_path (files saved_world)
        (joinpath (joinpath abc_dir (stem abc_input)) ''vocals.wav'')"
    by (simp add: saved_world_def abc_dir_def abc_input_def fs_eval string_eval)
  then have missing: "\<not> exists_path (files saved_world)
        (joinpath (joinpath abc_dir (stem abc_input)) ''vocals.wav'')
     \<or> \<not> exists_path (files saved_world)
        (joinpath (joinpath abc_dir (stem abc_input)) ''accompaniment.wav'')"
    by simp
  from missing_output_is_a_500 [OF run intime missing]
  have "\<exists>d. fst (run_spleeter_separation silent_env abc_input abc_dir saved_world)
          = Inl (HTTPException 500 d)"
    by blast
  with run gone show ?thesis by blast
qed

section \<open>The upload handler\<close>

subsection \<open>The parts of the handler\<close>

lemma validate_not_408: "validate_audio_file file \<noteq> Inl (HTTPException 408 d)"
  by (simp add: validate_audio_file_def split: option.splits)

lemma separate_try_input:
  "fst (snd (separate_try e file sid sd w)) = Some (input_path file sd)"
  by (simp add: separate_try_def Let_def split: sum.splits prod.splits)


lemma separate_except_invocations:
  "invocations (snd (separate_except e r w)) = invocations w"
  by (simp add: separate_except_def logger_def split: sum.splits exn.splits)

lemma separate_except_running:
  "running (snd (separate_except e r w)) = running w"
  by (simp add: separate_except_def logger_def split: sum.splits exn.splits)

lemma separate_except_408:
  "(fst (separate_except e r w) = Inl (HTTPException 408 d)) = (r = Inl (HTTPException 408 d))"
  by (auto simp: separate_except_def split: sum.splits exn.splits)


lemma separate_finally_invocations:
  "invocations (separate_finally e p w) = invocations w"
  by (simp add: separate_finally_def logger_def split: option.splits sum.splits)

lemma separate_finally_running:
  "running (separate_finally e p w) = running w"
  by (simp add: separate_finally_def logger_def split: option.splits sum.splits)


text \<open>
  After the cleanup step the input file is gone, or the unlink has raised and the
  warning is the last record of the log.
\<close>

lemma separate_finally_post:
  assumes "exists_path (files (separate_finally e (Some p) w)) p"
  shows "\<exists>x. unlink e (files (separate_finally e (Some p) w)) p = Inl x \<and>
             logs (separate_finally e (Some p) w)
               = logs w @ [(WARNING, ''Failed to clean up input file: '' @ exn_str e x)]"
proof (cases "exists_path (files w) p")
  case False
  with assms show ?thesis by (simp add: separate_finally_def)
next
  case True
  show ?thesis
  proof (cases "unlink e (files w) p")
    case (Inr f')
    with True have "files (separate_finally e (Some p) w) = f'"
      by (simp add: separate_finally_def)
    with assms unlink_removes [OF Inr] show ?thesis by simp
  next
    case (Inl x)
    with True show ?thesis by (simp add: separate_finally_def logger_def)
  qed
qed

lemma separate_try_invocations:
  "invocations (snd (snd (separate_try e file sid sd w))) = invocations w \<or>
   invocations (snd (snd (separate_try e file sid sd w)))
     = invocations w @ [spleeter_cmd (input_path file sd) sd]"
proof -
  let ?inp = "input_path file sd"
  show ?thesis
  proof (cases "length (content file) > MAX_FILE_SIZE")
    case True
    then show ?thesis by (simp add: separate_try_def Let_def)
  next
    case False
    obtain r f1 where wr: "write_file e (files w) ?inp (content file) = (r, f1)"
      by (cases "write_file e (files w) ?inp (content file)")
    show ?thesis
    proof (cases r)
      case (Inl x)
      with False wr show ?thesis by (simp add: separate_try_def Let_def)
    next
      case (Inr u)
      let ?w1 = "logger INFO (''Processing file: '' @ str_opt (filename file)
                   @ '' (Session: '' @ sid @ '')'') (w\<lparr>files := f1\<rparr>)"
      have "invocations (snd (run_spleeter_separation e ?inp sd ?w1))
          = invocations ?w1 @ [spleeter_cmd ?inp sd]"
        by (rule run_spleeter_separation_invocations)
      then have "invocations (snd (run_spleeter_separation e ?inp sd ?w1))
          = invocations w @ [spleeter_cmd ?inp sd]"
        by (simp add: logger_def)
      with False wr Inr show ?thesis
        by (auto simp: separate_try_def Let_def split: prod.splits sum.splits)
    qed
  qed
qed

lemma separate_try_408:
  assumes "fst (separate_try e file sid sd w) = Inl (HTTPException 408 d)"
  shows "invocations (snd (snd (separate_try e file sid sd w)))
     = invocations w @ [spleeter_cmd (input_path file sd) sd]"
proof -
  let ?inp = "input_path file sd"
  show ?thesis
  proof (cases "length (content file) > MAX_FILE_SIZE")
    case True
    with assms show ?thesis by (simp add: separate_try_def Let_def)
  next
    case False
    obtain r f1 where wr: "write_file e (files w) ?inp (content file) = (r, f1)"
      by (cases "write_file e (files w) ?inp (content file)")
    show ?thesis
    proof (cases r)
      case (Inl x)
      with False wr assms write_file_not_http [of e "files w" ?inp "content file" 408 d]
      show ?thesis by (simp add: separate_try_def Let_def)
    next
      case (Inr u)
      let ?w1 = "logger INFO (''Processing file: '' @ str_opt (filename file)
                   @ '' (Session: '' @ sid @ '')'') (w\<lparr>files := f1\<rparr>)"
      have "invocations (snd (run_spleeter_separation e ?inp sd ?w1))
          = invocations ?w1 @ [spleeter_cmd ?inp sd]"
        by (rule run_spleeter_separation_invocations)
      then have "invocations (snd (run_spleeter_separation e ?inp sd ?w1))
          = invocations w @ [spleeter_cmd ?inp sd]"
        by (simp add: logger_def)
      with False wr Inr show ?thesis
        by (auto simp: separate_try_def Let_def split: prod.splits sum.splits)
    qed
  qed
qed

lemma separate_try_running:
  "running (snd (snd (separate_try e file sid sd w))) = running w"
proof -
  let ?inp = "input_path file sd"
  show ?thesis
  proof (cases "length (content file) > MAX_FILE_SIZE")
    case True
    then show ?thesis by (simp add: separate_try_def Let_def)
  next
    case False
    obtain r f1 where wr: "write_file e (files w) ?inp (content file) = (r, f1)"
      by (cases "write_file e (files w) ?inp (content file)")
    show ?thesis
    proof (cases r)
      case (Inl x)
      with False wr show ?thesis by (simp add: separate_try_def Let_def)
    next
      case (Inr u)
      let ?w1 = "logger INFO (''Processing file: '' @ str_opt (filename file)
                   @ '' (Session: '' @ sid @ '')'') (w\<lparr>files := f1\<rparr>)"
      have "running (snd (run_spleeter_separation e ?inp sd ?w1)) = running ?w1"
        by (rule run_spleeter_separation_running)
      then have "running (snd (run_spleeter_separation e ?inp sd ?w1)) = running w"
        by (simp add: logger_def)
      with False wr Inr show ?thesis
        by (auto simp: separate_try_def Let_def split: prod.splits sum.splits)
    qed
  qed
qed


text \<open>
  A request that has passed the validator and has its workspace: the result is that
  of the \<^verbatim>\<open>try\<close> block after the \<^verbatim>\<open>except\<close> clauses, and the world is the one the
  \<^verbatim>\<open>finally\<close> clause leaves.
\<close>

lemma separate_audio_finally:
  assumes valid: "validate_audio_file file = Inr ()"
    and dir: "mkdir_exist_ok (files w) (session_dir (uuid4 e)) = Inr f1"
  shows "\<exists>r w3. separate_except e
            (fst (separate_try e file (uuid4 e) (session_dir (uuid4 e)) (w\<lparr>files := f1\<rparr>)))
            (snd (snd (separate_try e file (uuid4 e) (session_dir (uuid4 e)) (w\<lparr>files := f1\<rparr>))))
              = (r, w3)
          \<and> separate_audio e file w
              = (r, separate_finally e (Some (input_path file (session_dir (uuid4 e)))) w3)"
proof -
  let ?sd = "session_dir (uuid4 e)"
  obtain r inp w2 where tr: "separate_try e file (uuid4 e) ?sd (w\<lparr>files := f1\<rparr>) = (r, inp, w2)"
    by (cases "separate_try e file (uuid4 e) ?sd (w\<lparr>files := f1\<rparr>)")
  have inp: "inp = Some (input_path file ?sd)"
    using separate_try_input [of e "file" "uuid4 e" ?sd "w\<lparr>files := f1\<rparr>"] tr by simp
  obtain r' w3 where ex: "separate_except e r w2 = (r', w3)"
    by (cases "separate_except e r w2")
  show ?thesis
    using valid dir tr inp ex by (simp add: separate_audio_def Let_def)
qed

lemma separate_audio_invocations:
  "invocations (snd (separate_audio e file w)) = invocations w \<or>
   invocations (snd (separate_audio e file w))
     = invocations w @ [spleeter_cmd (input_path file (session_dir (uuid4 e)))
                          (session_dir (uuid4 e))]"
proof (cases "validate_audio_file file")
  case (Inl x)
  then show ?thesis by (simp add: separate_audio_def)
next
  case (Inr u)
  show ?thesis
  proof (cases "mkdir_exist_ok (files w) (session_dir (uuid4 e))")
    case (Inl x)
    with Inr show ?thesis by (simp add: separate_audio_def Let_def)
  next
    case mk: (Inr f1)
    let ?sd = "session_dir (uuid4 e)"
    let ?tr = "separate_try e file (uuid4 e) ?sd (w\<lparr>files := f1\<rparr>)"
    from Inr have valid: "validate_audio_file file = Inr ()" by simp
    from separate_audio_finally [OF valid mk] obtain r w3
      where ex: "separate_except e (fst ?tr) (snd (snd ?tr)) = (r, w3)"
        and run: "separate_audio e file w
          = (r, separate_finally e (Some (input_path file ?sd)) w3)"
      by blast
    have w3: "invocations w3 = invocations (snd (snd ?tr))"
      using separate_except_invocations [of e "fst ?tr" "snd (snd ?tr)"] ex by simp
    have "invocations (snd (snd ?tr)) = invocations w \<or>
        invocations (snd (snd ?tr)) = invocations w @ [spleeter_cmd (input_path file ?sd) ?sd]"
      using separate_try_invocations [of e "file" "uuid4 e" ?sd "w\<lparr>files := f1\<rparr>"] by simp
    with run w3 show ?thesis
      by (simp add: separate_finally_invocations)
  qed
qed

lemma separate_audio_running:
  "running (snd (separate_audio e file w)) = running w"
proof (cases "validate_audio_file file")
  case (Inl x)
  then show ?thesis by (simp add: separate_audio_def)
next
  case (Inr u)
  show ?thesis
  proof (cases "mkdir_exist_ok (files w) (session_dir (uuid4 e))")
    case (Inl x)
    with Inr show ?thesis by (simp add: separate_audio_def Let_def)
  next
    case mk: (Inr f1)
    let ?sd = "session_dir (uuid4 e)"
    let ?tr = "separate_try e file (uuid4 e) ?sd (w\<lparr>files := f1\<rparr>)"
    from Inr have valid: "validate_audio_file file = Inr ()" by simp
    from separate_audio_finally [OF valid mk] obtain r w3
      where ex: "separate_except e (fst ?tr) (snd (snd ?tr)) = (r, w3)"
        and run: "separate_audio e file w
          = (r, separate_finally e (Some (input_path file ?sd)) w3)"
      by blast
    have w3: "running w3 = running (snd (snd ?tr))"
      using separate_except_running [of e "fst ?tr" "snd (snd ?tr)"] ex by simp
    have "running (snd (snd ?tr)) = running w"
      using separate_try_running [of e "file" "uuid4 e" ?sd "w\<lparr>files := f1\<rparr>"] by simp
    with run w3 show ?thesis
      by (simp add: separate_finally_running)
  qed
qed

lemma separate_audio_408:
  assumes "fst (separate_audio e file w) = Inl (HTTPException 408 d)"
  shows "invocations (snd (separate_audio e file w))
     = invocations w @ [spleeter_cmd (input_path file (session_dir (uuid4 e)))
                          (session_dir (uuid4 e))]"
proof (cases "validate_audio_file file")
  case (Inl x)
  with assms validate_not_408 [of "file" d] show ?thesis by (simp add: separate_audio_def)
next
  case (Inr u)
  show ?thesis
  proof (cases "mkdir_exist_ok (files w) (session_dir (uuid4 e))")
    case (Inl x)
    with Inr assms mkdir_not_http [of "files w" "session_dir (uuid4 e)" 408 d]
    show ?thesis by (simp add: separate_audio_def Let_def)
  next
    case mk: (Inr f1)
    let ?sd = "session_dir (uuid4 e)"
    let ?tr = "separate_try e file (uuid4 e) ?sd (w\<lparr>files := f1\<rparr>)"
    from Inr have valid: "validate_audio_file file = Inr ()" by simp
    from separate_audio_finally [OF valid mk] obtain r w3
      where ex: "separate_except e (fst ?tr) (snd (snd ?tr)) = (r, w3)"
        and run: "separate_audio e file w
          = (r, separate_finally e (Some (input_path file ?sd)) w3)"
      by blast
    from run assms have "r = Inl (HTTPException 408 d)" by simp
    with ex separate_except_408 [of e "fst ?tr" "snd (snd ?tr)" d]
    have "fst ?tr = Inl (HTTPException 408 d)" by simp
    from separate_try_408 [OF this]
    have "invocations (snd (snd ?tr)) = invocations w @ [spleeter_cmd (input_path file ?sd) ?sd]"
      by simp
    moreover have "invocations w3 = invocations (snd (snd ?tr))"
      using separate_except_invocations [of e "fst ?tr" "snd (snd ?tr)"] ex by simp
    ultimately show ?thesis
      using run by (simp add: separate_finally_invocations)
  qed
qed



text \<open>No part of the handler but the cleanup step reads the unlink faults.\<close>

lemma write_file_unlink_error:
  "write_file (e\<lparr>unlink_error := u\<rparr>) = write_file e"
  by (simp add: write_file_def fun_eq_iff)

lemma subprocess_run_unlink_error:
  "subprocess_run (e\<lparr>unlink_error := u\<rparr>) = subprocess_run e"
  by (simp add: subprocess_run_def fun_eq_iff)

lemma exn_str_unlink_error:
  "exn_str (e\<lparr>unlink_error := u\<rparr>) = exn_str e"
  by (simp add: exn_str_def fun_eq_iff split: exn.splits)

lemma run_spleeter_try_unlink_error:
  "run_spleeter_try (e\<lparr>unlink_error := u\<rparr>) = run_spleeter_try e"
  by (simp add: run_spleeter_try_def fun_eq_iff subprocess_run_unlink_error)

lemma run_spleeter_separation_unlink_error:
  "run_spleeter_separation (e\<lparr>unlink_error := u\<rparr>) = run_spleeter_separation e"
  by (simp add: run_spleeter_separation_def fun_eq_iff run_spleeter_try_unlink_error
      exn_str_unlink_error split: prod.splits sum.splits exn.splits)

lemma separate_try_unlink_error:
  "separate_try (e\<lparr>unlink_error := u\<rparr>) = separate_try e"
  by (simp add: separate_try_def fun_eq_iff Let_def write_file_unlink_error
      run_spleeter_separation_unlink_error split: prod.splits sum.splits)

lemma separate_except_unlink_error:
  "separate_except (e\<lparr>unlink_error := u\<rparr>) = separate_except e"
  by (simp add: separate_except_def fun_eq_iff exn_str_unlink_error
      split: sum.splits exn.splits)

lemma fst_separate_audio_unlink_error:
  "fst (separate_audio (e\<lparr>unlink_error := u\<rparr>) file w) = fst (separate_audio e file w)"
  by (simp add: separate_audio_def Let_def separate_try_unlink_error
      separate_except_unlink_error split: sum.splits prod.splits)

subsection \<open>The timeout\<close>

text \<open>
  Claim C8. A call of \<^verbatim>\<open>run_spleeter_separation\<close> raises the \<^verbatim>\<open>HTTPException\<close> with
  status 408 exactly when the child process runs longer than 300 seconds, and then
  with the processing-timeout detail; no other outcome of the call has that status.
  Every call starts the engine once, and no child process that it started is alive
  when it returns. An upload request starts the engine at most once, exactly once when
  it ends with status 408, and leaves no child process alive.
\<close>

theorem timeout_reported_once:
  "(fst (run_spleeter_separation e inp out w) = Inl (HTTPException 408 d))
     = ((\<exists>secs rc err after.
           child e (spleeter_cmd inp out) (files w) = Runs secs rc err after \<and> 300 < secs)
        \<and> d = ''Processing timeout. Please try with a shorter audio file.'')
   \<and> invocations (snd (run_spleeter_separation e inp out w))
       = invocations w @ [spleeter_cmd inp out]
   \<and> running (snd (run_spleeter_separation e inp out w)) = running w
   \<and> (invocations (snd (separate_audio e file v)) = invocations v
      \<or> invocations (snd (separate_audio e file v))
          = invocations v @ [spleeter_cmd (input_path file (session_dir (uuid4 e)))
                               (session_dir (uuid4 e))])
   \<and> (fst (separate_audio e file v) = Inl (HTTPException 408 d) \<longrightarrow>
        invocations (snd (separate_audio e file v))
          = invocations v @ [spleeter_cmd (input_path file (session_dir (uuid4 e)))
                               (session_dir (uuid4 e))])
   \<and> running (snd (separate_audio e file v)) = running v"
  using run_spleeter_separation_408 [of e inp out w d] run_spleeter_try_timeout [of e inp out w]
    run_spleeter_separation_invocations [of e inp out w]
    run_spleeter_separation_running [of e inp out w]
    separate_audio_invocations [of e "file" v] separate_audio_running [of e "file" v]
    separate_audio_408 [of e "file" v d]
  by simp

theorem timeout_reported_once_witness:
  "fst (run_spleeter_separation slow_env abc_input abc_dir saved_world)
     = Inl (HTTPException 408 ''Processing timeout. Please try with a shorter audio file.'')
   \<and> invocations (snd (run_spleeter_separation slow_env abc_input abc_dir saved_world))
       = [abc_cmd]
   \<and> running (snd (run_spleeter_separation slow_env abc_input abc_dir saved_world)) = []
   \<and> fst (separate_audio slow_env mp3_upload tmp_world)
       = Inl (HTTPException 408 ''Processing timeout. Please try with a shorter audio file.'')
   \<and> invocations (snd (separate_audio slow_env mp3_upload tmp_world)) = [abc_cmd]"
proof -
  have late: "\<exists>secs rc err after.
      child slow_env (spleeter_cmd abc_input abc_dir) (files saved_world)
        = Runs secs rc err after \<and> 300 < secs"
    by (simp add: slow_env_def quiet_env_def)
  have sd: "session_dir (uuid4 slow_env) = abc_dir"
    by (simp add: slow_env_def quiet_env_def abc_session_dir)
  have up: "fst (separate_audio slow_env mp3_upload tmp_world)
       = Inl (HTTPException 408 ''Processing timeout. Please try with a shorter audio file.'')"
    by (simp add: slow_run)
  from late up timeout_reported_once [of slow_env abc_input abc_dir saved_world
      "''Processing timeout. Please try with a shorter audio file.''" mp3_upload tmp_world]
  show ?thesis
    by (simp add: abc_cmd_eq saved_world_def tmp_world_def sd abc_input_path)
qed

subsection \<open>The input file\<close>

text \<open>
  Claim C7. For every upload request that has passed the validator and has its
  workspace directory, on whatever path the request ends: the outcome of the request
  does not depend on whether the operating system refuses to unlink the input file;
  and afterwards the input file does not exist, unless the unlink itself raised, in
  which case the warning about it is the last record of the log.
\<close>

theorem input_file_never_outlives_request:
  assumes valid: "validate_audio_file file = Inr ()"
    and dir: "mkdir_exist_ok (files w) (session_dir (uuid4 e)) = Inr f1"
  shows "fst (separate_audio (e\<lparr>unlink_error := u\<rparr>) file w) = fst (separate_audio e file w)
    \<and> (exists_path (files (snd (separate_audio e file w)))
          (input_path file (session_dir (uuid4 e))) \<longrightarrow>
        (\<exists>x. unlink e (files (snd (separate_audio e file w)))
                (input_path file (session_dir (uuid4 e))) = Inl x
             \<and> last (logs (snd (separate_audio e file w)))
                 = (WARNING, ''Failed to clean up input file: '' @ exn_str e x)))"
proof -
  let ?inp = "input_path file (session_dir (uuid4 e))"
  from separate_audio_finally [OF valid dir] obtain r w3
    where run: "separate_audio e file w = (r, separate_finally e (Some ?inp) w3)"
    by blast
  have "exists_path (files (separate_finally e (Some ?inp) w3)) ?inp \<longrightarrow>
        (\<exists>x. unlink e (files (separate_finally e (Some ?inp) w3)) ?inp = Inl x
             \<and> last (logs (separate_finally e (Some ?inp) w3))
                 = (WARNING, ''Failed to clean up input file: '' @ exn_str e x))"
    using separate_finally_post [of e ?inp w3] by auto
  with run show ?thesis
    by (simp add: fst_separate_audio_unlink_error)
qed

theorem input_file_never_outlives_request_witness:
  "validate_audio_file mp3_upload = Inr ()
   \<and> fst (separate_audio stuck_env mp3_upload tmp_world)
       = fst (separate_audio quiet_env mp3_upload tmp_world)
   \<and> \<not> exists_path (files (snd (separate_audio quiet_env mp3_upload tmp_world))) abc_input
   \<and> exists_path (files (snd (separate_audio stuck_env mp3_upload tmp_world))) abc_input
   \<and> last (logs (snd (separate_audio stuck_env mp3_upload tmp_world)))
       = (WARNING, ''Failed to clean up input file: [Errno 13] Permission denied'')"
proof -
  have dir: "mkdir_exist_ok (files tmp_world) (session_dir (uuid4 quiet_env))
      = Inr (files tmp_world @ [([''tmp'', ''vocal_remover_abc''], Dir)])"
    by (simp add: quiet_env_def tmp_world_mkdir)
  have same: "quiet_env\<lparr>unlink_error := (\<lambda>_. Some ''[Errno 13] Permission denied'')\<rparr> = stuck_env"
    by (simp add: stuck_env_def)
  from input_file_never_outlives_request [OF mp3_upload_valid dir,
      of "\<lambda>_. Some ''[Errno 13] Permission denied''"]
  show ?thesis
    by (simp add: mp3_upload_valid same quiet_run stuck_run abc_input_def exists_path_def)
qed

subsection \<open>The workspace of a failed request\<close>




section \<open>The download resolver\<close>

text \<open>
  Claim C5. A download request whose track kind is neither \<^verbatim>\<open>vocals\<close> nor
  \<^verbatim>\<open>instrumental\<close> is answered with status 400 and the detail
  \<^verbatim>\<open>Invalid track type\<close>, whatever the session id and the state of the files; and no
  other request is answered with status 400, so the outcome cannot be taken for one of
  the not-found outcomes, which carry status 404.
\<close>

theorem invalid_track_kind:
  "(download_track sid t w = Inl (HTTPException 400 d))
     = (t \<notin> {''vocals'', ''instrumental''} \<and> d = ''Invalid track type'')"
  by (auto simp: download_track_def Let_def iterdir_def split: sum.splits list.splits if_splits)

theorem invalid_track_kind_witness:
  "download_track ''abc'' ''bassline'' tmp_world = Inl (HTTPException 400 ''Invalid track type'')
   \<and> download_track ''abc'' ''bassline'' done_world
       = Inl (HTTPException 400 ''Invalid track type'')
   \<and> download_track ''abc'' ''vocals'' tmp_world
       = Inl (HTTPException 404 ''Session not found or expired'')"
  using invalid_track_kind [of "''abc''" "''bassline''" tmp_world "''Invalid track type''"]
    invalid_track_kind [of "''abc''" "''bassline''" done_world "''Invalid track type''"]
  by (simp add: download_track_def tmp_world_def fs_eval string_eval)




section \<open>The cleanup controller\<close>

text \<open>
  Claim C6. When the recursive delete does not raise (the workspace path, if it
  exists, is a directory, and the operating system does not refuse), two cleanup
  requests in a row for a session id both succeed: the first answers that the session
  was cleaned up when the workspace existed, and that it was not found when it did
  not; after it the workspace does not exist; and the second answers that the session
  was not found or already cleaned up, and changes nothing.
\<close>

theorem cleanup_twice:
  assumes ok: "rmtree_error e (session_dir sid) = None"
    and dir: "exists_path (files w) (session_dir sid) \<Longrightarrow> is_dir (files w) (session_dir sid)"
  shows "\<exists>w1. cleanup_session e sid w
            = (Inr (if exists_path (files w) (session_dir sid)
                    then [(''message'', ''Session cleaned up successfully'')]
                    else [(''message'', ''Session not found or already cleaned up'')]), w1)
          \<and> \<not> exists_path (files w1) (session_dir sid)
          \<and> cleanup_session e sid w1
            = (Inr [(''message'', ''Session not found or already cleaned up'')], w1)"
proof (cases "exists_path (files w) (session_dir sid)")
  case True
  with dir have "is_dir (files w) (session_dir sid)" by simp
  with True ok have "rmtree e (files w) (session_dir sid)
      = Inr (remove_tree (session_dir sid) (files w))"
    by (simp add: rmtree_def)
  with True show ?thesis
    by (simp add: cleanup_session_def exists_path_remove_tree)
next
  case False
  then show ?thesis by (simp add: cleanup_session_def)
qed

theorem cleanup_twice_witness:
  "exists_path (files done_world) (session_dir ''abc'') \<and>
   cleanup_session quiet_env ''abc'' done_world
     = (Inr [(''message'', ''Session cleaned up successfully'')], tmp_world) \<and>
   cleanup_session quiet_env ''abc'' tmp_world
     = (Inr [(''message'', ''Session not found or already cleaned up'')], tmp_world) \<and>
   cleanup_session quiet_env ''never-issued'' tmp_world
     = (Inr [(''message'', ''Session not found or already cleaned up'')], tmp_world)"
proof -
  have ok: "rmtree_error quiet_env (session_dir ''abc'') = None"
    by (simp add: quiet_env_def)
  have ex: "exists_path (files done_world) (session_dir ''abc'')"
    by (simp add: done_world_def fs_eval string_eval)
  have dir: "is_dir (files done_world) (session_dir ''abc'')"
    by (simp add: done_world_def fs_eval string_eval)
  have first: "cleanup_session quiet_env ''abc'' done_world
     = (Inr [(''message'', ''Session cleaned up successfully'')], tmp_world)"
    by (simp add: cleanup_session_def rmtree_def done_world_def tmp_world_def quiet_env_def
        fs_eval string_eval)
  have other: "cleanup_session quiet_env ''never-issued'' tmp_world
     = (Inr [(''message'', ''Session not found or already cleaned up'')], tmp_world)"
    by (simp add: cleanup_session_def tmp_world_def fs_eval string_eval)
  from cleanup_twice [of quiet_env "''abc''" done_world, OF ok dir] ex first other
  show ?thesis by simp
qed

end
